theory Spec2Isabelle
  imports Main
begin

section \<open>The free bosons Lie conformal algebra: data model\<close>

text \<open>
  The development follows
  \<^verbatim>\<open>src/sage/algebras/lie_conformal_algebras/free_bosons_lie_conformal_algebra.py\<close>.
  The class \<^verbatim>\<open>FreeBosonsLieConformalAlgebra\<close> has three methods: the constructor
  \<^verbatim>\<open>__init__\<close>, the printer \<^verbatim>\<open>_repr_\<close> and the accessor \<^verbatim>\<open>gram_matrix\<close>.

  Exceptions are values. \<^verbatim>\<open>ValueError\<close> carries its message; \<^verbatim>\<open>IndexError\<close> is what
  indexing a matrix out of range raises; \<^verbatim>\<open>OtherError\<close> stands for whatever else a
  collaborator may raise.
\<close>

datatype exn = ValueError string | IndexError | OtherError string

text \<open>
  The ground ring is opaque to the constructor beyond the membership of scalars (used by
  the matrix space) and its two constants (used by the identity matrix).
\<close>

record 'a ground_ring =
  in_ring :: "'a \<Rightarrow> bool"
  ring_zero :: 'a
  ring_one :: 'a

text \<open>
  A matrix knows its two dimensions and its entries, kept as the list of its rows.
\<close>

record 'a matrix =
  nrows :: nat
  ncols :: nat
  rows :: "'a list list"

text \<open>\<^verbatim>\<open>gram_matrix.dimensions()\<close>: the pair (number of rows, number of columns).\<close>

definition dimensions :: "'a matrix \<Rightarrow> nat \<times> nat" where
  "dimensions M = (nrows M, ncols M)"

text \<open>
  Modelled from the spec: the membership test \<^verbatim>\<open>gram_matrix in MatrixSpace(R, n, m)\<close> of the
  matrix framework, which is not part of the sources. The spec calls it membership of the
  \<open>n x m\<close> matrix space over the ring and delegates the ring membership of the entries to it:
  the matrix has \<open>n\<close> rows of \<open>m\<close> entries each, every entry a scalar of the ring.
\<close>

definition in_MatrixSpace :: "'a ground_ring \<Rightarrow> nat \<Rightarrow> nat \<Rightarrow> 'a matrix \<Rightarrow> bool" where
  "in_MatrixSpace R n m M =
     (nrows M = n \<and> ncols M = m \<and> length (rows M) = n \<and>
      list_all (\<lambda>r. length r = m \<and> list_all (in_ring R) r) (rows M))"

text \<open>
  Modelled from the spec: the symmetry test \<^verbatim>\<open>gram_matrix.is_symmetric()\<close> of the matrix
  framework, which is not part of the sources. A symmetric matrix is square and its entry
  at \<open>(i, j)\<close> equals its entry at \<open>(j, i)\<close>; it is enough to compare below the diagonal.
\<close>

definition is_symmetric :: "'a matrix \<Rightarrow> bool" where
  "is_symmetric M =
     (nrows M = ncols M \<and>
      list_all (\<lambda>i. list_all (\<lambda>j. rows M ! i ! j = rows M ! j ! i) [0..<i]) [0..<nrows M])"

text \<open>
  Modelled from the spec: \<^verbatim>\<open>identity_matrix\<close> of the matrix framework, which is not part of
  the sources: the identity matrix of size \<open>n\<close> over the ring. The constructor calls it as
  \<^verbatim>\<open>identity_matrix(R, ngens, ngens)\<close>.
\<close>

definition identity_matrix :: "'a ground_ring \<Rightarrow> nat \<Rightarrow> 'a matrix" where
  "identity_matrix R n =
     \<lparr>nrows = n, ncols = n,
      rows = map (\<lambda>i. map (\<lambda>j. if i = j then ring_one R else ring_zero R) [0..<n]) [0..<n]\<rparr>"

text \<open>
  \<^verbatim>\<open>gram_matrix[r, c]\<close>: the entry at row \<open>r\<close> and column \<open>c\<close>; out of range it raises
  \<^verbatim>\<open>IndexError\<close>.
\<close>

definition getitem :: "'a matrix \<Rightarrow> nat \<Rightarrow> nat \<Rightarrow> exn + 'a" where
  "getitem M r c =
     (if r < nrows M \<and> c < ncols M then Inr (rows M ! r ! c) else Inl IndexError)"

subsection \<open>Printing of integers\<close>

text \<open>Python's decimal printing of a non-negative integer (\<^verbatim>\<open>%d\<close> and \<^verbatim>\<open>{0}\<close>).\<close>

definition digit_char :: "nat \<Rightarrow> char" where
  "digit_char d = ''0123456789'' ! d"

fun str_nat :: "nat \<Rightarrow> string" where
  "str_nat n =
     (if n < 10 then [digit_char n] else str_nat (n div 10) @ [digit_char (n mod 10)])"

declare str_nat.simps [simp del]

subsection \<open>Names and index sets\<close>

text \<open>
  The argument \<^verbatim>\<open>names\<close> is a string (\<^verbatim>\<open>'alpha'\<close>, \<^verbatim>\<open>'alpha,beta'\<close>) or a tuple of strings.
\<close>

datatype names = NamesStr string | NamesTuple "string list"

text \<open>
  The resolved index set is an enumerated set: the list of its labels in the order of
  iteration. \<^verbatim>\<open>index_set.rank(i)\<close> is the position of the label \<open>i\<close> in it. The constructor
  only ranks labels it has just drawn from the index set; for them the result is below
  the length of the list.
\<close>

fun rank :: "'l list \<Rightarrow> 'l \<Rightarrow> nat" where
  "rank [] x = 0"
| "rank (y # ys) x = (if x = y then 0 else Suc (rank ys x))"

section \<open>The constructor\<close>

subsection \<open>Lines 113 to 127: resolving the number of generators and the Gram matrix\<close>

text \<open>
  The message of the \<^verbatim>\<open>ValueError\<close> of lines 119 and 122:
  \<^verbatim>\<open>"the gram_matrix should be a symmetric " + "{0} x {0} matrix, got {1}".format(ngens, gram_matrix)\<close>.
  The printing of a matrix belongs to the matrix framework and is the parameter
  \<open>str_matrix\<close>.
\<close>

definition gram_matrix_message :: "('a matrix \<Rightarrow> string) \<Rightarrow> nat \<Rightarrow> 'a matrix \<Rightarrow> string" where
  "gram_matrix_message str_matrix ngens gram_matrix =
     ''the gram_matrix should be a symmetric '' @
     str_nat ngens @ '' x '' @ str_nat ngens @ '' matrix, got '' @ str_matrix gram_matrix"

text \<open>
  The number of generators is documented as a positive Integer and is a natural number
  here; \<^verbatim>\<open>None\<close> is the omitted argument. The result is the resolved pair
  \<^verbatim>\<open>(ngens, gram_matrix)\<close> with which the constructor goes on.
\<close>

definition resolve_gram_matrix ::
  "('a matrix \<Rightarrow> string) \<Rightarrow> 'a ground_ring \<Rightarrow> nat option \<Rightarrow> 'a matrix option
     \<Rightarrow> exn + nat \<times> 'a matrix" where
  "resolve_gram_matrix str_matrix R ngens gram_matrix =
     (case gram_matrix of
        Some M \<Rightarrow>
          (let n = (case ngens of None \<Rightarrow> fst (dimensions M) | Some k \<Rightarrow> k) in
           if \<not> in_MatrixSpace R n n M
             then Inl (ValueError (gram_matrix_message str_matrix n M))
           else if \<not> is_symmetric M
             then Inl (ValueError (gram_matrix_message str_matrix n M))
           else Inr (n, M))
      | None \<Rightarrow>
          (let n = (case ngens of None \<Rightarrow> 1 | Some k \<Rightarrow> k) in
           Inr (n, identity_matrix R n)))"

subsection \<open>Lines 129 to 133: the default names\<close>

text \<open>\<^verbatim>\<open>r'\alpha_{%d}' % i\<close>; the first character is a backslash.\<close>

definition latex_name :: "nat \<Rightarrow> string" where
  "latex_name i = CHR 0x5C # ''alpha_{'' @ str_nat i @ ''}''"

definition default_latex_names :: "names option \<Rightarrow> 'i option \<Rightarrow> nat \<Rightarrow> string list option" where
  "default_latex_names names index_set ngens =
     (if names = None \<and> index_set = None
      then Some (map latex_name [0..<ngens] @ [''K''])
      else None)"

definition default_names :: "names option \<Rightarrow> 'i option \<Rightarrow> names option" where
  "default_names names index_set =
     (if names = None \<and> index_set = None then Some (NamesStr ''alpha'') else names)"

subsection \<open>Lines 137 to 139: the structure-constant table\<close>

text \<open>
  The table \<^verbatim>\<open>bosondict\<close> is a dictionary from pairs of labels to a dictionary from the
  bracket weight to a dictionary from \<^verbatim>\<open>('K', 0)\<close> to a scalar.
\<close>

type_synonym ('a, 'l) s_coeff = "'l \<times> 'l \<rightharpoonup> (nat \<rightharpoonup> (string \<times> nat \<rightharpoonup> 'a))"

text \<open>
  The comprehension \<^verbatim>\<open>{(i, j): {1: {('K', 0): gram_matrix[rank(i), rank(j)]}} for i in
  index_set for j in index_set}\<close> runs over the pairs in the order of
  \<^term>\<open>List.product\<close>, stores one entry for each (a later pair with the same key
  overwrites an earlier one) and stops at the first lookup that raises.
\<close>

fun bosondict_loop ::
  "'a matrix \<Rightarrow> 'l list \<Rightarrow> ('l \<times> 'l) list \<Rightarrow> ('a, 'l) s_coeff \<Rightarrow> exn + ('a, 'l) s_coeff" where
  "bosondict_loop M idx [] d = Inr d"
| "bosondict_loop M idx ((i, j) # ps) d =
     (case getitem M (rank idx i) (rank idx j) of
        Inl e \<Rightarrow> Inl e
      | Inr x \<Rightarrow> bosondict_loop M idx ps (d((i, j) \<mapsto> [1 \<mapsto> [(''K'', 0) \<mapsto> x]])))"

definition bosondict :: "'a matrix \<Rightarrow> 'l list \<Rightarrow> exn + ('a, 'l) s_coeff" where
  "bosondict M idx = bosondict_loop M idx (List.product idx idx) Map.empty"

subsection \<open>Lines 141 to 147: the parent constructor and the stored Gram matrix\<close>

text \<open>
  Modelled from the spec: \<^verbatim>\<open>GradedLieConformalAlgebra.__init__\<close>, which is not part of the
  sources. The spec describes it as the generic constructor of an algebra from a
  structure-constant table, whose result holds the table, the resolved generator names
  and the central element. It keeps what it is given.
\<close>

record ('a, 'l) GradedLieConformalAlgebra =
  base_ring :: "'a ground_ring"
  s_coeff :: "('a, 'l) s_coeff"
  gen_names :: "names option"
  gen_latex_names :: "string list option"
  gen_index_set :: "'l list"
  central_elements :: "string list"

definition GradedLieConformalAlgebra_init ::
  "'a ground_ring \<Rightarrow> ('a, 'l) s_coeff \<Rightarrow> names option \<Rightarrow> string list option \<Rightarrow> 'l list
     \<Rightarrow> string list \<Rightarrow> ('a, 'l) GradedLieConformalAlgebra" where
  "GradedLieConformalAlgebra_init R d nms latex idx central =
     \<lparr>base_ring = R, s_coeff = d, gen_names = nms, gen_latex_names = latex,
      gen_index_set = idx, central_elements = central\<rparr>"

text \<open>
  The object as it is when the constructor returns, by value: what the parent constructor
  has set up, and the matrix that the attribute \<^verbatim>\<open>self._gram_matrix\<close> of line 147
  refers to. The attribute itself holds a reference to a matrix object; the section on
  objects in a store follows the reference.
\<close>

record ('a, 'l) FreeBosonsLieConformalAlgebra =
  graded :: "('a, 'l) GradedLieConformalAlgebra"
  priv_gram_matrix :: "'a matrix"

subsection \<open>The constructor as a whole\<close>

text \<open>
  \<^verbatim>\<open>FreeBosonsLieConformalAlgebra.__init__(self, R, ngens, gram_matrix, names, index_set)\<close>.
  Two collaborators that are not part of the sources are parameters: \<open>str_matrix\<close>, the
  printing of a matrix, and \<open>standardize\<close>, the function
  \<^verbatim>\<open>standardize_names_index_set(names, index_set, ngens)\<close>, which returns the resolved
  names and the resolved index set or raises.
\<close>

definition init ::
  "('a matrix \<Rightarrow> string) \<Rightarrow> (names option \<Rightarrow> 'i option \<Rightarrow> nat \<Rightarrow> exn + names option \<times> 'l list)
     \<Rightarrow> 'a ground_ring \<Rightarrow> nat option \<Rightarrow> 'a matrix option \<Rightarrow> names option \<Rightarrow> 'i option
     \<Rightarrow> exn + ('a, 'l) FreeBosonsLieConformalAlgebra" where
  "init str_matrix standardize R ngens gram_matrix names index_set =
     (case resolve_gram_matrix str_matrix R ngens gram_matrix of
        Inl e \<Rightarrow> Inl e
      | Inr (n, M) \<Rightarrow>
          (let latex_names = default_latex_names names index_set n;
               names1 = default_names names index_set
           in case standardize names1 index_set n of
                Inl e \<Rightarrow> Inl e
              | Inr (names2, idx) \<Rightarrow>
                  (case bosondict M idx of
                     Inl e \<Rightarrow> Inl e
                   | Inr d \<Rightarrow>
                       Inr \<lparr>graded = GradedLieConformalAlgebra_init R d names2 latex_names idx [''K''],
                            priv_gram_matrix = M\<rparr>)))"

section \<open>The other methods, by value\<close>

text \<open>
  \<^verbatim>\<open>gram_matrix(self)\<close> returns \<^verbatim>\<open>self._gram_matrix\<close>; on the object by value, the
  matrix the attribute refers to.
\<close>

definition gram_matrix :: "('a, 'l) FreeBosonsLieConformalAlgebra \<Rightarrow> 'a matrix" where
  "gram_matrix self = priv_gram_matrix self"

text \<open>
  \<^verbatim>\<open>_repr_(self)\<close> formats \<^verbatim>\<open>self.gens()\<close> and \<^verbatim>\<open>self.base_ring()\<close>. The printing of the
  generators and of the ring belongs to the framework: the parameters \<open>str_gens\<close> and
  \<open>str_ring\<close>.
\<close>

definition repr ::
  "(('a, 'l) GradedLieConformalAlgebra \<Rightarrow> string) \<Rightarrow> ('a ground_ring \<Rightarrow> string)
     \<Rightarrow> ('a, 'l) FreeBosonsLieConformalAlgebra \<Rightarrow> string" where
  "repr str_gens str_ring self =
     ''The free Bosons Lie conformal algebra with generators '' @ str_gens (graded self) @
     '' over '' @ str_ring (base_ring (graded self))"

section \<open>Objects in a store\<close>

text \<open>
  A matrix is an object. The caller passes a reference to it; line 147,
  \<^verbatim>\<open>self._gram_matrix = gram_matrix\<close>, stores that reference without copying the matrix,
  and line 173, \<^verbatim>\<open>return self._gram_matrix\<close>, hands the same reference out. The caller
  and every caller of the accessor therefore hold the matrix that the object holds. To
  follow what they can do with it, matrices live in a store: every reference holds a
  matrix, and the references from \<open>next_ref\<close> on have not been handed out yet.
\<close>

type_synonym ref = nat

record 'a store =
  cell :: "ref \<Rightarrow> 'a matrix"
  next_ref :: ref

text \<open>A new matrix object, as \<^verbatim>\<open>identity_matrix(R, ngens, ngens)\<close> of line 127 creates one.\<close>

definition alloc :: "'a store \<Rightarrow> 'a matrix \<Rightarrow> ref \<times> 'a store" where
  "alloc h M =
     (next_ref h, h\<lparr>cell := (cell h)(next_ref h := M), next_ref := Suc (next_ref h)\<rparr>)"

text \<open>
  Item assignment \<^verbatim>\<open>M[i, j] = x\<close> by a holder of the reference \<open>r\<close>. It belongs to the
  matrix framework, which is not part of the sources; the class neither copies the matrix
  it is given nor makes it immutable, so nothing in the class stands in its way. Out of
  range it raises \<^verbatim>\<open>IndexError\<close> and changes nothing.
\<close>

definition setitem :: "'a store \<Rightarrow> ref \<Rightarrow> nat \<Rightarrow> nat \<Rightarrow> 'a \<Rightarrow> exn + 'a store" where
  "setitem h r i j x =
     (if i < nrows (cell h r) \<and> j < ncols (cell h r)
      then Inr (h\<lparr>cell := (cell h)
                  (r := (cell h r)\<lparr>rows := (rows (cell h r))[i := (rows (cell h r) ! i)[j := x]]\<rparr>)\<rparr>)
      else Inl IndexError)"

text \<open>
  The object in the store: what the parent constructor has set up (the table holds
  scalars, read from the matrix during the construction), and the reference that the
  attribute \<^verbatim>\<open>self._gram_matrix\<close> holds.
\<close>

record ('a, 'l) stored_object =
  inst_graded :: "('a, 'l) GradedLieConformalAlgebra"
  inst_gram_matrix :: ref

text \<open>The object by value, in a given store.\<close>

definition by_value ::
  "'a store \<Rightarrow> ('a, 'l) stored_object \<Rightarrow> ('a, 'l) FreeBosonsLieConformalAlgebra" where
  "by_value h self =
     \<lparr>graded = inst_graded self, priv_gram_matrix = cell h (inst_gram_matrix self)\<rparr>"

text \<open>
  The constructor in a store. The argument \<^verbatim>\<open>gram_matrix\<close> is a reference (here
  \<open>gram_ref\<close>) or omitted.
  Lines 113 to 145 only read the matrix, so they are \<^const>\<open>init\<close> on the matrix the
  reference holds at the time of the call. If the argument is omitted, line 127 creates
  the identity matrix as a new object. Line 147 stores the reference. The result is the
  store and the object.
\<close>

definition construct ::
  "('a matrix \<Rightarrow> string) \<Rightarrow> (names option \<Rightarrow> 'i option \<Rightarrow> nat \<Rightarrow> exn + names option \<times> 'l list)
     \<Rightarrow> 'a store \<Rightarrow> 'a ground_ring \<Rightarrow> nat option \<Rightarrow> ref option \<Rightarrow> names option \<Rightarrow> 'i option
     \<Rightarrow> exn + 'a store \<times> ('a, 'l) stored_object" where
  "construct str_matrix standardize h R ngens gram_ref names index_set =
     (case init str_matrix standardize R ngens (map_option (cell h) gram_ref)
             names index_set of
        Inl e \<Rightarrow> Inl e
      | Inr A \<Rightarrow>
          (case gram_ref of
             Some r \<Rightarrow> Inr (h, \<lparr>inst_graded = graded A, inst_gram_matrix = r\<rparr>)
           | None \<Rightarrow>
               (case alloc h (priv_gram_matrix A) of
                  (r, h') \<Rightarrow> Inr (h', \<lparr>inst_graded = graded A, inst_gram_matrix = r\<rparr>))))"

text \<open>
  A call of a method of the class on an object in a store: the value the call returns,
  and the store and the object after the call. The accessor returns the reference.
  Neither method assigns to an attribute or to the matrix.
\<close>

datatype member = Call_repr | Call_gram_matrix

datatype returned = Returned_str string | Returned_ref ref

definition call ::
  "(('a, 'l) GradedLieConformalAlgebra \<Rightarrow> string) \<Rightarrow> ('a ground_ring \<Rightarrow> string)
     \<Rightarrow> 'a store \<times> ('a, 'l) stored_object \<Rightarrow> member
     \<Rightarrow> returned \<times> 'a store \<times> ('a, 'l) stored_object" where
  "call str_gens str_ring s m =
     (case m of
        Call_repr \<Rightarrow> (Returned_str (repr str_gens str_ring (by_value (fst s) (snd s))), s)
      | Call_gram_matrix \<Rightarrow> (Returned_ref (inst_gram_matrix (snd s)), s))"

text \<open>
  What can happen to an object after its construction: a call of one of its methods, or
  an item assignment by some holder of a reference to a matrix, which may be the
  reference the caller passed to the constructor or one the accessor has returned. An
  assignment that raises changes nothing.
\<close>

datatype 'a action = Call member | Assign ref nat nat 'a

definition step ::
  "(('a, 'l) GradedLieConformalAlgebra \<Rightarrow> string) \<Rightarrow> ('a ground_ring \<Rightarrow> string)
     \<Rightarrow> 'a store \<times> ('a, 'l) stored_object \<Rightarrow> 'a action \<Rightarrow> 'a store \<times> ('a, 'l) stored_object" where
  "step str_gens str_ring s a =
     (case a of
        Call m \<Rightarrow> snd (call str_gens str_ring s m)
      | Assign r i j x \<Rightarrow>
          (case setitem (fst s) r i j x of Inl e \<Rightarrow> s | Inr h' \<Rightarrow> (h', snd s)))"

fun run ::
  "(('a, 'l) GradedLieConformalAlgebra \<Rightarrow> string) \<Rightarrow> ('a ground_ring \<Rightarrow> string)
     \<Rightarrow> 'a store \<times> ('a, 'l) stored_object \<Rightarrow> 'a action list \<Rightarrow> 'a store \<times> ('a, 'l) stored_object" where
  "run str_gens str_ring s [] = s"
| "run str_gens str_ring s (a # as) = run str_gens str_ring (step str_gens str_ring s a) as"

section \<open>Example inputs\<close>

text \<open>
  Inputs on which the statements below are evaluated: the ring of the integers; a naming
  collaborator that keeps the names it is given and resolves the labels \<open>0, ..., n - 1\<close>;
  a naming collaborator that resolves the label 4 as many times as there are generators,
  which is what the caller's \<^verbatim>\<open>index_set=(4, 4)\<close> taken as it is gives for two generators;
  printings of matrices, generators and rings; and a store whose matrices all have the
  rows \<open>(2, 1)\<close> and \<open>(1, 3)\<close>, the first of which has been handed out.
\<close>

definition integers :: "int ground_ring" where
  "integers = \<lparr>in_ring = (\<lambda>x. True), ring_zero = 0, ring_one = 1\<rparr>"

definition numbered_labels :: "names option \<Rightarrow> unit option \<Rightarrow> nat \<Rightarrow> exn + names option \<times> nat list" where
  "numbered_labels nms ix n = Inr (nms, [0..<n])"

definition str_dims :: "int matrix \<Rightarrow> string" where
  "str_dims M = str_nat (nrows M) @ ''x'' @ str_nat (ncols M)"


definition str_gens_count :: "(int, nat) GradedLieConformalAlgebra \<Rightarrow> string" where
  "str_gens_count g = str_nat (length (gen_index_set g)) @ '' generators and K''"

definition str_integers :: "int ground_ring \<Rightarrow> string" where
  "str_integers R = ''Integer Ring''"

definition one_matrix_store :: "int store" where
  "one_matrix_store =
     \<lparr>cell = (\<lambda>r. \<lparr>nrows = 2, ncols = 2, rows = [[2, 1], [1, 3]]\<rparr>), next_ref = 1\<rparr>"

section \<open>Auxiliary facts\<close>

lemma rank_less: "x \<in> set idx \<Longrightarrow> rank idx x < length idx"
  by (induction idx) auto

lemma bosondict_loop_ok:
  "\<forall>p\<in>set ps. rank idx (fst p) < nrows M \<and> rank idx (snd p) < ncols M \<Longrightarrow>
   \<exists>d'. bosondict_loop M idx ps d = Inr d'"
  by (induction ps arbitrary: d) (auto simp: getitem_def)

lemma bosondict_loop_in_range:
  "bosondict_loop M idx ps d = Inr d' \<Longrightarrow> p \<in> set ps \<Longrightarrow>
   rank idx (fst p) < nrows M \<and> rank idx (snd p) < ncols M"
proof (induction ps arbitrary: d)
  case Nil
  then show ?case by simp
next
  case (Cons q qs)
  obtain i j where q: "q = (i, j)" by (cases q)
  from Cons.prems(1) q have r: "rank idx i < nrows M \<and> rank idx j < ncols M"
    by (auto simp: getitem_def split: if_splits)
  with Cons.prems(1) q
  have "bosondict_loop M idx qs (d((i, j) \<mapsto> [1 \<mapsto> [(''K'', 0) \<mapsto> rows M ! rank idx i ! rank idx j]])) = Inr d'"
    by (simp add: getitem_def)
  from Cons.IH [OF this] Cons.prems(2) q r show ?case by auto
qed

lemma bosondict_loop_lookup:
  "bosondict_loop M idx ps d = Inr d' \<Longrightarrow>
   d' k = (if k \<in> set ps
           then Some [1 \<mapsto> [(''K'', 0) \<mapsto> rows M ! rank idx (fst k) ! rank idx (snd k)]]
           else d k)"
  by (induction ps arbitrary: d) (auto simp: getitem_def split: if_splits sum.splits)

lemma bosondict_ok:
  assumes "length idx \<le> nrows M" and "length idx \<le> ncols M"
  shows "\<exists>d. bosondict M idx = Inr d"
proof -
  have "\<forall>p\<in>set (List.product idx idx). rank idx (fst p) < nrows M \<and> rank idx (snd p) < ncols M"
    using assms rank_less [of _ idx] by fastforce
  then show ?thesis
    unfolding bosondict_def by (rule bosondict_loop_ok)
qed

lemma bosondict_lookup:
  assumes "bosondict M idx = Inr d"
  shows "d (i, j) = (if i \<in> set idx \<and> j \<in> set idx
                     then Some [1 \<mapsto> [(''K'', 0) \<mapsto> rows M ! rank idx i ! rank idx j]]
                     else None)"
  using bosondict_loop_lookup [OF assms [unfolded bosondict_def], of "(i, j)"] by simp

lemma bosondict_in_range:
  assumes "bosondict M idx = Inr d" and "i \<in> set idx" and "j \<in> set idx"
  shows "rank idx i < nrows M \<and> rank idx j < ncols M"
  using bosondict_loop_in_range [OF assms(1) [unfolded bosondict_def], of "(i, j)"] assms(2,3)
  by simp


lemma is_symmetric_entries:
  assumes "is_symmetric M" and "r < nrows M" and "c < nrows M"
  shows "rows M ! r ! c = rows M ! c ! r"
proof -
  have below: "rows M ! i ! j = rows M ! j ! i" if "i < nrows M" and "j < i" for i j
  proof -
    from assms(1) have "\<forall>i\<in>set [0..<nrows M]. \<forall>j\<in>set [0..<i]. rows M ! i ! j = rows M ! j ! i"
      unfolding is_symmetric_def list_all_iff by (rule conjunct2)
    moreover have "i \<in> set [0..<nrows M]" and "j \<in> set [0..<i]" using that by simp_all
    ultimately show ?thesis by blast
  qed
  consider "c < r" | "r < c" | "r = c" by linarith
  then show ?thesis
  proof cases
    case 1 then show ?thesis using below [of r c] assms(2) by simp
  next
    case 2 then show ?thesis using below [of c r] assms(3) by simp
  next
    case 3 then show ?thesis by simp
  qed
qed

lemma resolve_gram_matrix_Inr:
  assumes "resolve_gram_matrix str_matrix R ngens gm = Inr (n, M)"
  shows "nrows M = n \<and> ncols M = n \<and>
         (\<forall>r<n. \<forall>c<n. rows M ! r ! c = rows M ! c ! r) \<and>
         M = (case gm of Some G \<Rightarrow> G | None \<Rightarrow> identity_matrix R n) \<and>
         n = (case ngens of Some k \<Rightarrow> k
              | None \<Rightarrow> (case gm of Some G \<Rightarrow> nrows G | None \<Rightarrow> 1))"
proof (cases gm)
  case None
  with assms have "M = identity_matrix R n" and "n = (case ngens of None \<Rightarrow> 1 | Some k \<Rightarrow> k)"
    by (auto simp: resolve_gram_matrix_def Let_def)
  with None show ?thesis
    by (auto simp: identity_matrix_def split: option.splits)
next
  case (Some G)
  define k where "k = (case ngens of None \<Rightarrow> fst (dimensions G) | Some k \<Rightarrow> k)"
  from assms Some
  have "(if \<not> in_MatrixSpace R k k G
           then Inl (ValueError (gram_matrix_message str_matrix k G))
         else if \<not> is_symmetric G
           then Inl (ValueError (gram_matrix_message str_matrix k G))
         else Inr (k, G)) = Inr (n, M)"
    unfolding k_def by (simp add: resolve_gram_matrix_def Let_def)
  then have G: "M = G" "in_MatrixSpace R n n G" "is_symmetric G" and kn: "k = n"
    by (simp_all split: if_splits)
  from G(2) have d: "nrows G = n" "ncols G = n" by (auto simp: in_MatrixSpace_def)
  have sym: "\<forall>r<n. \<forall>c<n. rows G ! r ! c = rows G ! c ! r"
    using is_symmetric_entries [OF G(3)] d by simp
  have n: "n = (case ngens of Some k \<Rightarrow> k
                | None \<Rightarrow> (case gm of Some G \<Rightarrow> nrows G | None \<Rightarrow> 1))"
  proof (cases ngens)
    case None
    with kn have "n = nrows G" by (simp add: k_def dimensions_def)
    with None Some show ?thesis by simp
  next
    case (Some m)
    with kn show ?thesis by (simp add: k_def)
  qed
  have M: "M = (case gm of Some G \<Rightarrow> G | None \<Rightarrow> identity_matrix R n)"
    using Some G(1) by simp
  from d sym G(1) have "nrows M = n" "ncols M = n"
    "\<forall>r<n. \<forall>c<n. rows M ! r ! c = rows M ! c ! r" by simp_all
  with M n show ?thesis by blast
qed

lemma init_Inr:
  assumes "init str_matrix standardize R ngens gm names index_set = Inr A"
  obtains n M nms idx d where
    "resolve_gram_matrix str_matrix R ngens gm = Inr (n, M)"
    "standardize (default_names names index_set) index_set n = Inr (nms, idx)"
    "bosondict M idx = Inr d"
    "A = \<lparr>graded = GradedLieConformalAlgebra_init R d nms
                      (default_latex_names names index_set n) idx [''K''],
          priv_gram_matrix = M\<rparr>"
  using assms unfolding init_def Let_def
  by (auto split: sum.splits prod.splits)

section \<open>The claims\<close>

subsection \<open>C1: a symmetric Gram matrix of the right size is accepted and kept\<close>

text \<open>
  C1. For every ring \<open>R\<close>, every number \<open>n\<close> and every symmetric matrix \<open>M\<close> of the
  \<open>n x n\<close> matrix space over \<open>R\<close>, the constructor called with \<open>gram_matrix = M\<close> and
  \<open>ngens = n\<close> (or \<open>ngens\<close> omitted) raises no error, and the accessor
  \<^verbatim>\<open>gram_matrix()\<close> of the object returns \<open>M\<close>. The naming collaborator is taken to
  resolve an index set of size \<open>n\<close>, as the spec describes it.
\<close>

theorem symmetric_gram_matrix_accepted:
  assumes "in_MatrixSpace R n n M" and "is_symmetric M"
    and "ngens = Some n \<or> ngens = None"
    and "standardize (default_names names index_set) index_set n = Inr (nms, idx)"
    and "length idx = n"
  shows "\<exists>A. init str_matrix standardize R ngens (Some M) names index_set = Inr A \<and>
             gram_matrix A = M"
proof -
  from assms(1) have dims: "nrows M = n" "ncols M = n"
    by (simp_all add: in_MatrixSpace_def)
  have "(case ngens of None \<Rightarrow> fst (dimensions M) | Some k \<Rightarrow> k) = n"
    using assms(3) dims by (auto simp: dimensions_def)
  then have res: "resolve_gram_matrix str_matrix R ngens (Some M) = Inr (n, M)"
    using assms(1,2) by (simp add: resolve_gram_matrix_def)
  from bosondict_ok [of idx M] assms(5) dims
  obtain d where d: "bosondict M idx = Inr d" by auto
  show ?thesis
    by (simp add: init_def res assms(4) d gram_matrix_def)
qed

text \<open>The statement at the integers, for the matrix with the rows \<open>(2, 1)\<close> and \<open>(1, 3)\<close>.\<close>

theorem symmetric_gram_matrix_accepted_witness:
  "in_MatrixSpace integers 2 2 \<lparr>nrows = 2, ncols = 2, rows = [[2, 1], [1, 3]]\<rparr> \<and>
   is_symmetric \<lparr>nrows = 2, ncols = 2, rows = [[2, 1], [1, 3 :: int]]\<rparr> \<and>
   numbered_labels (default_names None (None :: unit option)) None 2 = Inr (Some (NamesStr ''alpha''), [0, 1]) \<and>
   length [0, 1 :: nat] = 2 \<and>
   (\<exists>A. init str_dims numbered_labels integers (Some 2)
           (Some \<lparr>nrows = 2, ncols = 2, rows = [[2, 1], [1, 3]]\<rparr>) None None = Inr A \<and>
        gram_matrix A = \<lparr>nrows = 2, ncols = 2, rows = [[2, 1], [1, 3]]\<rparr>)"
proof -
  have h1: "in_MatrixSpace integers 2 2 \<lparr>nrows = 2, ncols = 2, rows = [[2, 1], [1, 3]]\<rparr>"
    by code_simp
  have h2: "is_symmetric \<lparr>nrows = 2, ncols = 2, rows = [[2, 1], [1, 3 :: int]]\<rparr>"
    by code_simp
  have h3: "numbered_labels (default_names None (None :: unit option)) None 2
              = Inr (Some (NamesStr ''alpha''), [0, 1])"
    by code_simp
  have h4: "length [0, 1 :: nat] = 2" by simp
  have h5: "Some (2 :: nat) = Some 2 \<or> Some (2 :: nat) = None" by simp
  from symmetric_gram_matrix_accepted
    [where standardize = numbered_labels and names = None and index_set = None
       and ngens = "Some 2" and str_matrix = str_dims, OF h1 h2 h5 h3 h4]
  show ?thesis using h1 h2 h3 h4 by simp
qed

subsection \<open>C2: the defaults of the number of generators and of the Gram matrix\<close>

lemma resolve_gram_matrix_omitted:
  "resolve_gram_matrix str_matrix R ngens None =
     Inr (case ngens of None \<Rightarrow> 1 | Some k \<Rightarrow> k,
          identity_matrix R (case ngens of None \<Rightarrow> 1 | Some k \<Rightarrow> k))"
  by (simp add: resolve_gram_matrix_def Let_def)

lemma resolve_gram_matrix_rejects:
  assumes "\<not> in_MatrixSpace R n n M \<or> \<not> is_symmetric M"
    and "n = (case ngens of None \<Rightarrow> nrows M | Some k \<Rightarrow> k)"
  shows "resolve_gram_matrix str_matrix R ngens (Some M) =
           Inl (ValueError (gram_matrix_message str_matrix n M))"
proof -
  have "(case ngens of None \<Rightarrow> fst (dimensions M) | Some k \<Rightarrow> k) = n"
    using assms(2) by (cases ngens) (simp_all add: dimensions_def)
  then show ?thesis
    using assms(1) by (auto simp: resolve_gram_matrix_def)
qed

text \<open>
  C2. If \<open>gram_matrix\<close> is omitted, the Gram matrix used is the identity matrix of size
  \<open>ngens\<close> over the ring; if \<open>ngens\<close> is omitted as well, it is 1; and if \<open>gram_matrix\<close>
  is supplied while \<open>ngens\<close> is omitted, \<open>ngens\<close> is the number of rows of the supplied
  matrix. The first three conjuncts are about the resolution of lines 113 to 127, the
  last three about the constructor as a whole: omitting \<open>ngens\<close> is the same call as
  giving the default, and the Gram matrix the accessor returns is the identity matrix.
\<close>

theorem default_resolution:
  "resolve_gram_matrix str_matrix R (Some n) None = Inr (n, identity_matrix R n) \<and>
   resolve_gram_matrix str_matrix R None None = Inr (1, identity_matrix R 1) \<and>
   resolve_gram_matrix str_matrix R None (Some M) =
     resolve_gram_matrix str_matrix R (Some (fst (dimensions M))) (Some M) \<and>
   init str_matrix standardize R None None names index_set =
     init str_matrix standardize R (Some 1) None names index_set \<and>
   init str_matrix standardize R None (Some M) names index_set =
     init str_matrix standardize R (Some (fst (dimensions M))) (Some M) names index_set \<and>
   (\<forall>A. init str_matrix standardize R ngens None names index_set = Inr A \<longrightarrow>
        gram_matrix A = identity_matrix R (case ngens of None \<Rightarrow> 1 | Some k \<Rightarrow> k))"
proof -
  have a: "resolve_gram_matrix str_matrix R (Some n) None = Inr (n, identity_matrix R n)"
    by (simp add: resolve_gram_matrix_omitted)
  have b: "resolve_gram_matrix str_matrix R None None = Inr (1, identity_matrix R 1)"
    by (simp add: resolve_gram_matrix_omitted)
  have b': "resolve_gram_matrix str_matrix R (Some 1) None = Inr (1, identity_matrix R 1)"
    by (simp add: resolve_gram_matrix_omitted)
  have c: "resolve_gram_matrix str_matrix R None (Some M) =
             resolve_gram_matrix str_matrix R (Some (fst (dimensions M))) (Some M)"
    by (simp add: resolve_gram_matrix_def)
  have d: "init str_matrix standardize R None None names index_set =
             init str_matrix standardize R (Some 1) None names index_set"
    unfolding init_def b b' by (rule refl)
  have e: "init str_matrix standardize R None (Some M) names index_set =
             init str_matrix standardize R (Some (fst (dimensions M))) (Some M) names index_set"
    unfolding init_def c by (rule refl)
  have f: "gram_matrix A = identity_matrix R (case ngens of None \<Rightarrow> 1 | Some k \<Rightarrow> k)"
    if "init str_matrix standardize R ngens None names index_set = Inr A" for A
  proof -
    from that obtain k G nms idx t where
      r: "resolve_gram_matrix str_matrix R ngens None = Inr (k, G)" and
      A: "A = \<lparr>graded = GradedLieConformalAlgebra_init R t nms
                          (default_latex_names names index_set k) idx [''K''],
               priv_gram_matrix = G\<rparr>"
      by (rule init_Inr)
    from r have "G = identity_matrix R (case ngens of None \<Rightarrow> 1 | Some m \<Rightarrow> m)"
      unfolding resolve_gram_matrix_omitted by blast
    with A show ?thesis by (simp add: gram_matrix_def)
  qed
  from a b c d e f show ?thesis by blast
qed

text \<open>The statement at the integers.\<close>

theorem default_resolution_witness:
  "resolve_gram_matrix str_dims integers (Some 3) None
     = Inr (3, \<lparr>nrows = 3, ncols = 3, rows = [[1, 0, 0], [0, 1, 0], [0, 0, 1]]\<rparr>) \<and>
   resolve_gram_matrix str_dims integers None None
     = Inr (1, \<lparr>nrows = 1, ncols = 1, rows = [[1]]\<rparr>) \<and>
   resolve_gram_matrix str_dims integers None
       (Some \<lparr>nrows = 2, ncols = 2, rows = [[2, 1], [1, 3]]\<rparr>)
     = Inr (2, \<lparr>nrows = 2, ncols = 2, rows = [[2, 1], [1, 3]]\<rparr>) \<and>
   (\<exists>A. init str_dims numbered_labels integers None None None None = Inr A \<and>
        gram_matrix A = \<lparr>nrows = 1, ncols = 1, rows = [[1]]\<rparr>)"
proof -
  note t = default_resolution [where str_matrix = str_dims and R = integers and n = 3
      and M = "\<lparr>nrows = 2, ncols = 2, rows = [[2, 1], [1, 3]]\<rparr>"
      and standardize = numbered_labels and names = None and index_set = None and ngens = None]
  have i3: "identity_matrix integers 3
              = \<lparr>nrows = 3, ncols = 3, rows = [[1, 0, 0], [0, 1, 0], [0, 0, 1]]\<rparr>"
    by code_simp
  have i1: "identity_matrix integers 1 = \<lparr>nrows = 1, ncols = 1, rows = [[1]]\<rparr>"
    by code_simp
  have r2: "resolve_gram_matrix str_dims integers (Some 2)
              (Some \<lparr>nrows = 2, ncols = 2, rows = [[2, 1], [1, 3]]\<rparr>)
            = Inr (2, \<lparr>nrows = 2, ncols = 2, rows = [[2, 1], [1, 3]]\<rparr>)"
    by code_simp
  have "case init str_dims numbered_labels integers None None None None of
          Inl e \<Rightarrow> False | Inr A \<Rightarrow> True"
    by code_simp
  then have ex: "\<exists>A. init str_dims numbered_labels integers None None None None = Inr A"
    by (simp split: sum.splits)
  from t i3 i1 r2 ex show ?thesis
    by (auto simp: dimensions_def)
qed

subsection \<open>C3: a Gram matrix that is not symmetric is rejected\<close>

lemma init_rejects:
  assumes "resolve_gram_matrix str_matrix R ngens gm = Inl e"
  shows "init str_matrix standardize R ngens gm names index_set = Inl e"
  using assms by (simp add: init_def)

text \<open>
  C3. For every supplied \<open>gram_matrix\<close> that is not symmetric, the constructor raises a
  \<^verbatim>\<open>ValueError\<close>, before anything else is done, whose message names the expected shape
  \<open>n x n\<close>, where \<open>n\<close> is the number of generators (given, or else the number of rows of
  the matrix), and the printed matrix.
\<close>

theorem nonsymmetric_gram_matrix_rejected:
  assumes "\<not> is_symmetric M"
    and "n = (case ngens of None \<Rightarrow> nrows M | Some k \<Rightarrow> k)"
  shows "init str_matrix standardize R ngens (Some M) names index_set =
           Inl (ValueError (''the gram_matrix should be a symmetric '' @
                            str_nat n @ '' x '' @ str_nat n @ '' matrix, got '' @ str_matrix M))"
proof -
  from assms have "resolve_gram_matrix str_matrix R ngens (Some M) =
                     Inl (ValueError (gram_matrix_message str_matrix n M))"
    by (intro resolve_gram_matrix_rejects) simp_all
  then show ?thesis
    unfolding gram_matrix_message_def by (rule init_rejects)
qed

text \<open>
  The statement at the matrix with the rows \<open>(0, 1)\<close> and \<open>(-1, 0)\<close> of the tests of the
  class.
\<close>

theorem nonsymmetric_gram_matrix_rejected_witness:
  "\<not> is_symmetric \<lparr>nrows = 2, ncols = 2, rows = [[0, 1], [- 1, 0 :: int]]\<rparr> \<and>
   init str_dims numbered_labels integers (Some 2)
        (Some \<lparr>nrows = 2, ncols = 2, rows = [[0, 1], [- 1, 0]]\<rparr>) None None =
     Inl (ValueError ''the gram_matrix should be a symmetric 2 x 2 matrix, got 2x2'')"
proof -
  have h: "\<not> is_symmetric \<lparr>nrows = 2, ncols = 2, rows = [[0, 1], [- 1, 0 :: int]]\<rparr>"
    by code_simp
  have m: "''the gram_matrix should be a symmetric '' @ str_nat 2 @ '' x '' @ str_nat 2 @
             '' matrix, got '' @ str_dims \<lparr>nrows = 2, ncols = 2, rows = [[0, 1], [- 1, 0]]\<rparr>
           = ''the gram_matrix should be a symmetric 2 x 2 matrix, got 2x2''"
    by code_simp
  have n: "(2 :: nat) = (case Some 2 of None \<Rightarrow>
             nrows \<lparr>nrows = 2, ncols = 2, rows = [[0, 1], [- 1, 0 :: int]]\<rparr> | Some k \<Rightarrow> k)"
    by simp
  from nonsymmetric_gram_matrix_rejected
    [where str_matrix = str_dims and R = integers
       and standardize = numbered_labels and names = None and index_set = None, OF h n]
  have "init str_dims numbered_labels integers (Some 2)
          (Some \<lparr>nrows = 2, ncols = 2, rows = [[0, 1], [- 1, 0]]\<rparr>) None None =
        Inl (ValueError ''the gram_matrix should be a symmetric 2 x 2 matrix, got 2x2'')"
    unfolding m .
  with h show ?thesis by blast
qed

subsection \<open>C4: a Gram matrix outside the matrix space is rejected\<close>

text \<open>
  C4. For every supplied \<open>gram_matrix\<close> that is not a member of the \<open>n x n\<close> matrix space
  over the ring, where \<open>n\<close> is the number of generators, the constructor raises the
  \<^verbatim>\<open>ValueError\<close> that reports the expected dimension; in particular for every matrix
  one of whose dimensions differs from an explicitly given \<open>ngens\<close>.
\<close>

theorem gram_matrix_outside_matrix_space_rejected:
  "(\<not> in_MatrixSpace R n n M \<and> n = (case ngens of None \<Rightarrow> nrows M | Some k \<Rightarrow> k) \<longrightarrow>
      init str_matrix standardize R ngens (Some M) names index_set =
        Inl (ValueError (''the gram_matrix should be a symmetric '' @
                         str_nat n @ '' x '' @ str_nat n @ '' matrix, got '' @ str_matrix M))) \<and>
   (nrows M \<noteq> k \<or> ncols M \<noteq> k \<longrightarrow>
      init str_matrix standardize R (Some k) (Some M) names index_set =
        Inl (ValueError (''the gram_matrix should be a symmetric '' @
                         str_nat k @ '' x '' @ str_nat k @ '' matrix, got '' @ str_matrix M)))"
proof -
  have a: "init str_matrix standardize R g (Some M) names index_set =
             Inl (ValueError (''the gram_matrix should be a symmetric '' @
                              str_nat m @ '' x '' @ str_nat m @ '' matrix, got '' @ str_matrix M))"
    if "\<not> in_MatrixSpace R m m M" and "m = (case g of None \<Rightarrow> nrows M | Some k \<Rightarrow> k)" for m g
  proof -
    from that have "resolve_gram_matrix str_matrix R g (Some M) =
                      Inl (ValueError (gram_matrix_message str_matrix m M))"
      by (intro resolve_gram_matrix_rejects) simp_all
    then show ?thesis
      unfolding gram_matrix_message_def by (rule init_rejects)
  qed
  have b: "\<not> in_MatrixSpace R k k M" if "nrows M \<noteq> k \<or> ncols M \<noteq> k"
    using that by (auto simp: in_MatrixSpace_def)
  show ?thesis
  proof (intro conjI impI)
    assume "\<not> in_MatrixSpace R n n M \<and> n = (case ngens of None \<Rightarrow> nrows M | Some k \<Rightarrow> k)"
    then show "init str_matrix standardize R ngens (Some M) names index_set =
        Inl (ValueError (''the gram_matrix should be a symmetric '' @
                         str_nat n @ '' x '' @ str_nat n @ '' matrix, got '' @ str_matrix M))"
      using a [of n ngens] by blast
  next
    assume "nrows M \<noteq> k \<or> ncols M \<noteq> k"
    then have "\<not> in_MatrixSpace R k k M" by (rule b)
    moreover have "k = (case Some k of None \<Rightarrow> nrows M | Some k \<Rightarrow> k)" by simp
    ultimately show "init str_matrix standardize R (Some k) (Some M) names index_set =
        Inl (ValueError (''the gram_matrix should be a symmetric '' @
                         str_nat k @ '' x '' @ str_nat k @ '' matrix, got '' @ str_matrix M))"
      by (rule a)
  qed
qed

text \<open>
  The statement at \<open>ngens = 2\<close> and the identity matrix of size 1, as in the tests of the
  class.
\<close>

theorem gram_matrix_outside_matrix_space_rejected_witness:
  "\<not> in_MatrixSpace integers 2 2 \<lparr>nrows = 1, ncols = 1, rows = [[1]]\<rparr> \<and>
   nrows \<lparr>nrows = 1, ncols = 1, rows = [[1 :: int]]\<rparr> \<noteq> 2 \<and>
   init str_dims numbered_labels integers (Some 2)
        (Some \<lparr>nrows = 1, ncols = 1, rows = [[1]]\<rparr>) None None =
     Inl (ValueError ''the gram_matrix should be a symmetric 2 x 2 matrix, got 1x1'')"
proof -
  have h: "\<not> in_MatrixSpace integers 2 2 \<lparr>nrows = 1, ncols = 1, rows = [[1]]\<rparr>"
    by code_simp
  have d: "nrows \<lparr>nrows = 1, ncols = 1, rows = [[1 :: int]]\<rparr> \<noteq> 2" by simp
  have m: "''the gram_matrix should be a symmetric '' @ str_nat 2 @ '' x '' @ str_nat 2 @
             '' matrix, got '' @ str_dims \<lparr>nrows = 1, ncols = 1, rows = [[1]]\<rparr>
           = ''the gram_matrix should be a symmetric 2 x 2 matrix, got 1x1''"
    by code_simp
  from gram_matrix_outside_matrix_space_rejected
    [where ngens = "Some 2" and n = 2 and k = 2 and str_matrix = str_dims and R = integers
       and M = "\<lparr>nrows = 1, ncols = 1, rows = [[1]]\<rparr>"
       and standardize = numbered_labels and names = None and index_set = None] d
  have "init str_dims numbered_labels integers (Some 2)
          (Some \<lparr>nrows = 1, ncols = 1, rows = [[1]]\<rparr>) None None =
        Inl (ValueError (''the gram_matrix should be a symmetric '' @ str_nat 2 @ '' x '' @
               str_nat 2 @ '' matrix, got '' @
               str_dims \<lparr>nrows = 1, ncols = 1, rows = [[1]]\<rparr>))"
    by blast
  then have "init str_dims numbered_labels integers (Some 2)
          (Some \<lparr>nrows = 1, ncols = 1, rows = [[1]]\<rparr>) None None =
        Inl (ValueError ''the gram_matrix should be a symmetric 2 x 2 matrix, got 1x1'')"
    unfolding m .
  with h d show ?thesis by blast
qed

subsection \<open>C5: the entries of the structure-constant table\<close>

lemma init_table:
  assumes "init str_matrix standardize R ngens gm names index_set = Inr A"
  shows "bosondict (gram_matrix A) (gen_index_set (graded A)) = Inr (s_coeff (graded A))"
proof -
  from assms obtain n M nms idx d where
    d: "bosondict M idx = Inr d" and
    A: "A = \<lparr>graded = GradedLieConformalAlgebra_init R d nms
                        (default_latex_names names index_set n) idx [''K''],
             priv_gram_matrix = M\<rparr>"
    by (rule init_Inr)
  from A have "gram_matrix A = M" "gen_index_set (graded A) = idx" "s_coeff (graded A) = d"
    by (simp_all add: gram_matrix_def GradedLieConformalAlgebra_init_def)
  with d show ?thesis by simp
qed

lemma init_symmetric_entries:
  assumes "init str_matrix standardize R ngens gm names index_set = Inr A"
    and "r < nrows (gram_matrix A)" and "c < nrows (gram_matrix A)"
  shows "rows (gram_matrix A) ! r ! c = rows (gram_matrix A) ! c ! r"
    and "ncols (gram_matrix A) = nrows (gram_matrix A)"
proof -
  from assms(1) obtain n M nms idx d where
    r: "resolve_gram_matrix str_matrix R ngens gm = Inr (n, M)" and
    A: "A = \<lparr>graded = GradedLieConformalAlgebra_init R d nms
                        (default_latex_names names index_set n) idx [''K''],
             priv_gram_matrix = M\<rparr>"
    by (rule init_Inr)
  from A have M: "gram_matrix A = M" by (simp add: gram_matrix_def)
  from resolve_gram_matrix_Inr [OF r]
  have "nrows M = n" "ncols M = n" "\<forall>r<n. \<forall>c<n. rows M ! r ! c = rows M ! c ! r"
    by blast+
  with assms(2,3) M show "rows (gram_matrix A) ! r ! c = rows (gram_matrix A) ! c ! r"
    and "ncols (gram_matrix A) = nrows (gram_matrix A)" by simp_all
qed




subsection \<open>C6: the structure-constant table is symmetric\<close>

text \<open>
  C6. For every successful construction the structure-constant table is symmetric: for
  all labels \<open>i\<close> and \<open>j\<close> of the index set the table has an entry for \<open>(i, j)\<close> and an
  entry for \<open>(j, i)\<close>, and the two are equal. (For labels outside the index set neither
  pair has an entry, so that the two lookups agree for all labels.)
\<close>

theorem structure_constant_table_symmetric:
  assumes "init str_matrix standardize R ngens gm names index_set = Inr A"
  shows "s_coeff (graded A) (i, j) = s_coeff (graded A) (j, i) \<and>
         (i \<in> set (gen_index_set (graded A)) \<and> j \<in> set (gen_index_set (graded A)) \<longrightarrow>
            (\<exists>v. s_coeff (graded A) (i, j) = Some v \<and> s_coeff (graded A) (j, i) = Some v))"
proof -
  define idx where "idx = gen_index_set (graded A)"
  have t: "bosondict (gram_matrix A) idx = Inr (s_coeff (graded A))"
    using init_table [OF assms] by (simp add: idx_def)
  have both: "\<exists>v. s_coeff (graded A) (i, j) = Some v \<and> s_coeff (graded A) (j, i) = Some v"
    if i: "i \<in> set idx" and j: "j \<in> set idx"
  proof -
    from bosondict_in_range [OF t i j] bosondict_in_range [OF t j i]
    have "rank idx i < nrows (gram_matrix A)" and "rank idx j < nrows (gram_matrix A)"
      by simp_all
    then have "rows (gram_matrix A) ! rank idx i ! rank idx j
                 = rows (gram_matrix A) ! rank idx j ! rank idx i"
      by (rule init_symmetric_entries(1) [OF assms])
    with bosondict_lookup [OF t, of i j] bosondict_lookup [OF t, of j i] i j
    show ?thesis by simp
  qed
  have eq: "s_coeff (graded A) (i, j) = s_coeff (graded A) (j, i)"
  proof (cases "i \<in> set idx \<and> j \<in> set idx")
    case True
    with both show ?thesis by auto
  next
    case False
    with bosondict_lookup [OF t, of i j] bosondict_lookup [OF t, of j i]
    show ?thesis by auto
  qed
  from eq both show ?thesis unfolding idx_def by blast
qed

text \<open>
  The statement for the matrix with the rows \<open>(2, 1)\<close> and \<open>(1, 3)\<close> and the labels 0 and
  1: both entries exist and hold the scalar 1.
\<close>

theorem structure_constant_table_symmetric_witness:
  "\<exists>A. init str_dims numbered_labels integers (Some 2)
          (Some \<lparr>nrows = 2, ncols = 2, rows = [[2, 1], [1, 3]]\<rparr>) None None = Inr A \<and>
       0 \<in> set (gen_index_set (graded A)) \<and> 1 \<in> set (gen_index_set (graded A)) \<and>
       s_coeff (graded A) (0, 1) = Some [1 \<mapsto> [(''K'', 0) \<mapsto> 1]] \<and>
       s_coeff (graded A) (1, 0) = Some [1 \<mapsto> [(''K'', 0) \<mapsto> 1]]"
proof -
  define M :: "int matrix" where "M = \<lparr>nrows = 2, ncols = 2, rows = [[2, 1], [1, 3]]\<rparr>"
  have "case init str_dims numbered_labels integers (Some 2) (Some M) None None of
          Inl e \<Rightarrow> False
        | Inr A \<Rightarrow> gen_index_set (graded A) = [0, 1] \<and> gram_matrix A = M"
    unfolding M_def by code_simp
  then obtain A where
    A: "init str_dims numbered_labels integers (Some 2) (Some M) None None = Inr A" and
    idx: "gen_index_set (graded A) = [0, 1]" and G: "gram_matrix A = M"
    by (auto split: sum.splits)
  have m: "0 \<in> set (gen_index_set (graded A))" "1 \<in> set (gen_index_set (graded A))"
    by (simp_all add: idx)
  from structure_constant_table_symmetric [OF A, of 0 1] m
  obtain v where v: "s_coeff (graded A) (0, 1) = Some v" "s_coeff (graded A) (1, 0) = Some v"
    by blast
  from bosondict_lookup [OF init_table [OF A], of 0 1] v(1)
  have "v = [1 \<mapsto> [(''K'', 0) \<mapsto> 1]]"
    by (simp add: idx G M_def)
  with A m v show ?thesis unfolding M_def by blast
qed

subsection \<open>C8: the Gram matrix and the table after the construction\<close>

lemma init_gram_matrix:
  assumes "init str_matrix standardize R ngens gm names index_set = Inr A"
  shows "gram_matrix A =
           (case gm of Some G \<Rightarrow> G
            | None \<Rightarrow> identity_matrix R (case ngens of Some k \<Rightarrow> k | None \<Rightarrow> 1))"
proof -
  from assms obtain n M nms idx d where
    r: "resolve_gram_matrix str_matrix R ngens gm = Inr (n, M)" and
    A: "A = \<lparr>graded = GradedLieConformalAlgebra_init R d nms
                        (default_latex_names names index_set n) idx [''K''],
             priv_gram_matrix = M\<rparr>"
    by (rule init_Inr)
  from resolve_gram_matrix_Inr [OF r]
  have M: "M = (case gm of Some G \<Rightarrow> G | None \<Rightarrow> identity_matrix R n)"
    and n: "n = (case ngens of Some k \<Rightarrow> k
                 | None \<Rightarrow> (case gm of Some G \<Rightarrow> nrows G | None \<Rightarrow> 1))"
    by blast+
  have "M = (case gm of Some G \<Rightarrow> G
             | None \<Rightarrow> identity_matrix R (case ngens of Some k \<Rightarrow> k | None \<Rightarrow> 1))"
  proof (cases gm)
    case None
    with n have "n = (case ngens of Some k \<Rightarrow> k | None \<Rightarrow> 1)"
      by (cases ngens) simp_all
    with M None show ?thesis by simp
  next
    case (Some G)
    with M show ?thesis by simp
  qed
  with A show ?thesis by (simp add: gram_matrix_def)
qed

lemma construct_Inr:
  assumes "construct str_matrix standardize h R ngens gram_ref names index_set = Inr s"
  shows "init str_matrix standardize R ngens (map_option (cell h) gram_ref) names index_set
           = Inr (by_value (fst s) (snd s)) \<and>
         inst_gram_matrix (snd s) = (case gram_ref of Some r \<Rightarrow> r | None \<Rightarrow> next_ref h)"
proof -
  from assms obtain A where
    A: "init str_matrix standardize R ngens (map_option (cell h) gram_ref) names index_set
          = Inr A"
    by (auto simp: construct_def split: sum.splits)
  show ?thesis
  proof (cases gram_ref)
    case None
    with assms A have s: "s = (h\<lparr>cell := (cell h)(next_ref h := priv_gram_matrix A),
                                next_ref := Suc (next_ref h)\<rparr>,
                              \<lparr>inst_graded = graded A, inst_gram_matrix = next_ref h\<rparr>)"
      by (auto simp: construct_def alloc_def)
    with None A show ?thesis by (simp add: by_value_def)
  next
    case (Some r)
    with assms A have s: "s = (h, \<lparr>inst_graded = graded A, inst_gram_matrix = r\<rparr>)"
      by (auto simp: construct_def)
    from init_gram_matrix [OF A] Some have "priv_gram_matrix A = cell h r"
      by (simp add: gram_matrix_def)
    with s Some A show ?thesis by (simp add: by_value_def)
  qed
qed

lemma step_object: "snd (step str_gens str_ring s a) = snd s"
  by (cases a) (auto simp: step_def call_def split: member.splits sum.splits)

lemma run_object: "snd (run str_gens str_ring s acts) = snd s"
  by (induction acts arbitrary: s) (simp_all add: step_object)

lemma step_cell:
  assumes "\<forall>i j x. a \<noteq> Assign p i j x"
  shows "cell (fst (step str_gens str_ring s a)) p = cell (fst s) p"
proof (cases a)
  case (Call m)
  then show ?thesis by (simp add: step_def call_def split: member.splits)
next
  case (Assign r i j x)
  with assms have "r \<noteq> p" by auto
  with Assign show ?thesis
    by (auto simp: step_def setitem_def split: sum.splits if_splits)
qed

lemma run_cell:
  assumes "\<forall>a\<in>set acts. \<forall>i j x. a \<noteq> Assign p i j x"
  shows "cell (fst (run str_gens str_ring s acts)) p = cell (fst s) p"
  using assms by (induction acts arbitrary: s) (simp_all add: step_cell)

text \<open>
  C8, for a matrix that is shared and not copied. After a successful construction,
  whatever calls of the methods of the class (\<^verbatim>\<open>_repr_\<close>, \<^verbatim>\<open>gram_matrix\<close>) and whatever
  item assignments to matrices follow: the attributes of the object do not change; every
  call of \<^verbatim>\<open>gram_matrix()\<close> returns the reference to the matrix object resolved during
  the construction (the one supplied, or the new identity matrix); and the
  structure-constant table stays the table of the matrix as it was resolved. The matrix
  object keeps the contents it had at the construction as long as no holder of a
  reference to it assigns to it; assignments to other matrices do not touch it.
\<close>

theorem gram_matrix_reference_and_table_fixed:
  assumes "construct str_matrix standardize h R ngens gram_ref names index_set = Inr s0"
    and "s1 = run str_gens str_ring s0 acts"
  shows "snd s1 = snd s0 \<and>
         fst (call str_gens str_ring s1 Call_gram_matrix)
           = Returned_ref (case gram_ref of Some r \<Rightarrow> r | None \<Rightarrow> next_ref h) \<and>
         bosondict (case gram_ref of Some r \<Rightarrow> cell h r
                    | None \<Rightarrow> identity_matrix R (case ngens of Some k \<Rightarrow> k | None \<Rightarrow> 1))
                   (gen_index_set (inst_graded (snd s1)))
           = Inr (s_coeff (inst_graded (snd s1))) \<and>
         ((\<forall>a\<in>set acts. \<forall>i j x. a \<noteq> Assign (inst_gram_matrix (snd s0)) i j x) \<longrightarrow>
            cell (fst s1) (inst_gram_matrix (snd s1))
              = (case gram_ref of Some r \<Rightarrow> cell h r
                 | None \<Rightarrow> identity_matrix R (case ngens of Some k \<Rightarrow> k | None \<Rightarrow> 1)))"
proof -
  define G where "G = (case gram_ref of Some r \<Rightarrow> cell h r
                       | None \<Rightarrow> identity_matrix R (case ngens of Some k \<Rightarrow> k | None \<Rightarrow> 1))"
  from construct_Inr [OF assms(1)]
  have A: "init str_matrix standardize R ngens (map_option (cell h) gram_ref) names index_set
             = Inr (by_value (fst s0) (snd s0))"
    and r: "inst_gram_matrix (snd s0) = (case gram_ref of Some r \<Rightarrow> r | None \<Rightarrow> next_ref h)"
    by blast+
  have obj: "snd s1 = snd s0"
    unfolding assms(2) by (rule run_object)
  have ret: "fst (call str_gens str_ring s1 Call_gram_matrix)
               = Returned_ref (case gram_ref of Some r \<Rightarrow> r | None \<Rightarrow> next_ref h)"
    using obj r by (simp add: call_def)
  have g0: "gram_matrix (by_value (fst s0) (snd s0)) = G"
    using init_gram_matrix [OF A] unfolding G_def by (cases gram_ref) simp_all
  then have c0: "cell (fst s0) (inst_gram_matrix (snd s0)) = G"
    by (simp add: gram_matrix_def by_value_def)
  have tab: "bosondict G (gen_index_set (inst_graded (snd s1))) = Inr (s_coeff (inst_graded (snd s1)))"
    using init_table [OF A] g0 obj by (simp add: by_value_def)
  have keep: "cell (fst s1) (inst_gram_matrix (snd s1)) = G"
    if "\<forall>a\<in>set acts. \<forall>i j x. a \<noteq> Assign (inst_gram_matrix (snd s0)) i j x"
    using run_cell [OF that, of str_gens str_ring s0] c0 obj assms(2) by simp
  from obj ret tab keep show ?thesis unfolding G_def by blast
qed

text \<open>
  The statement for a construction on the matrix at the reference 0, followed by a call
  of \<^verbatim>\<open>_repr_\<close>, an assignment to another matrix and a call of the accessor.
\<close>

theorem gram_matrix_reference_and_table_fixed_witness:
  "\<not> isl (construct str_dims numbered_labels one_matrix_store integers (Some 2) (Some 0)
             None None) \<and>
   cell (fst (run str_gens_count str_integers
                (projr (construct str_dims numbered_labels one_matrix_store integers (Some 2)
                          (Some 0) None None))
                [Call Call_repr, Assign 5 0 1 7, Call Call_gram_matrix])) 0
     = \<lparr>nrows = 2, ncols = 2, rows = [[2, 1], [1, 3]]\<rparr> \<and>
   fst (call str_gens_count str_integers
          (run str_gens_count str_integers
             (projr (construct str_dims numbered_labels one_matrix_store integers (Some 2)
                       (Some 0) None None))
             [Call Call_repr, Assign 5 0 1 7, Call Call_gram_matrix]) Call_gram_matrix)
     = Returned_ref 0"
proof -
  define C where "C = construct str_dims numbered_labels one_matrix_store integers (Some 2)
                        (Some 0) None None"
  define acts :: "int action list" where
    "acts = [Call Call_repr, Assign 5 0 1 7, Call Call_gram_matrix]"
  have ok: "\<not> isl C" unfolding C_def by code_simp
  then have C: "construct str_dims numbered_labels one_matrix_store integers (Some 2)
                  (Some 0) None None = Inr (projr C)"
    unfolding C_def by (simp add: sum.collapse(2))
  have r0: "inst_gram_matrix (snd (projr C)) = 0"
    using construct_Inr [OF C] by simp
  have no: "\<forall>a\<in>set acts. \<forall>i j x. a \<noteq> Assign (inst_gram_matrix (snd (projr C))) i j x"
    by (simp add: acts_def r0)
  have m: "cell one_matrix_store 0 = \<lparr>nrows = 2, ncols = 2, rows = [[2, 1], [1, 3]]\<rparr>"
    by (simp add: one_matrix_store_def)
  note t = gram_matrix_reference_and_table_fixed
    [OF C refl, of str_gens_count str_integers acts]
  from t have o: "snd (run str_gens_count str_integers (projr C) acts) = snd (projr C)"
    by blast
  from t have c: "fst (call str_gens_count str_integers
                         (run str_gens_count str_integers (projr C) acts) Call_gram_matrix)
                  = Returned_ref (case Some 0 of Some r \<Rightarrow> r | None \<Rightarrow> next_ref one_matrix_store)"
    by blast
  from t no
  have "cell (fst (run str_gens_count str_integers (projr C) acts))
          (inst_gram_matrix (snd (run str_gens_count str_integers (projr C) acts)))
        = (case Some 0 of Some r \<Rightarrow> cell one_matrix_store r
           | None \<Rightarrow> identity_matrix integers (case Some 2 of Some k \<Rightarrow> k | None \<Rightarrow> 1))"
    by blast
  then have k: "cell (fst (run str_gens_count str_integers (projr C) acts)) 0
                  = \<lparr>nrows = 2, ncols = 2, rows = [[2, 1], [1, 3]]\<rparr>"
    by (simp add: o r0 m)
  from c have c': "fst (call str_gens_count str_integers
                          (run str_gens_count str_integers (projr C) acts) Call_gram_matrix)
                   = Returned_ref 0"
    by simp
  from ok k c' show ?thesis unfolding C_def acts_def by blast
qed

text \<open>
  C8 with a Gram matrix that is immutable after the construction, and an accessor that
  returns at every call the matrix as it was resolved during the construction, fails:
  the object shares the supplied matrix with its caller. After a construction on the
  matrix at the reference 0, with the rows \<open>(2, 1)\<close> and \<open>(1, 3)\<close>, the caller's
  assignment \<^verbatim>\<open>M[0, 1] = 7\<close> changes the matrix that \<^verbatim>\<open>gram_matrix()\<close> returns: its rows
  are then \<open>(2, 7)\<close> and \<open>(1, 3)\<close>.
\<close>

theorem gram_matrix_immutable_counterexample:
  "\<not> isl (construct str_dims numbered_labels one_matrix_store integers (Some 2) (Some 0)
             None None) \<and>
   fst (call str_gens_count str_integers
          (run str_gens_count str_integers
             (projr (construct str_dims numbered_labels one_matrix_store integers (Some 2)
                       (Some 0) None None))
             [Assign 0 0 1 7]) Call_gram_matrix)
     = Returned_ref 0 \<and>
   cell one_matrix_store 0 = \<lparr>nrows = 2, ncols = 2, rows = [[2, 1], [1, 3]]\<rparr> \<and>
   cell (fst (run str_gens_count str_integers
                (projr (construct str_dims numbered_labels one_matrix_store integers (Some 2)
                          (Some 0) None None))
                [Assign 0 0 1 7])) 0
     = \<lparr>nrows = 2, ncols = 2, rows = [[2, 7], [1, 3]]\<rparr>"
  by code_simp

subsection \<open>C9: no generators\<close>

text \<open>
  C9. The positivity of \<open>ngens\<close> is never checked. With \<open>ngens = 0\<close> and \<open>gram_matrix\<close>
  omitted, lines 113 to 127 raise nothing and resolve the \<open>0 x 0\<close> identity matrix; an
  error of the construction can only be one the naming collaborator raises, or the
  \<^verbatim>\<open>IndexError\<close> of a lookup in the empty matrix when the collaborator resolves a
  non-empty index set; and when the collaborator resolves the index set of size 0, the
  construction succeeds with the \<open>0 x 0\<close> Gram matrix and the empty structure-constant
  table.
\<close>

theorem zero_generators:
  "resolve_gram_matrix str_matrix R (Some 0) None
     = Inr (0, \<lparr>nrows = 0, ncols = 0, rows = []\<rparr>) \<and>
   (\<forall>e. init str_matrix standardize R (Some 0) None names index_set = Inl e \<longrightarrow>
        standardize (default_names names index_set) index_set 0 = Inl e \<or> e = IndexError) \<and>
   (standardize (default_names names index_set) index_set 0 = Inr (nms, []) \<longrightarrow>
      (\<exists>A. init str_matrix standardize R (Some 0) None names index_set = Inr A \<and>
           gram_matrix A = \<lparr>nrows = 0, ncols = 0, rows = []\<rparr> \<and>
           s_coeff (graded A) = Map.empty))"
proof -
  have r: "resolve_gram_matrix str_matrix R (Some 0) None
             = Inr (0, \<lparr>nrows = 0, ncols = 0, rows = []\<rparr>)"
    by (simp add: resolve_gram_matrix_def identity_matrix_def)
  have e: "standardize (default_names names index_set) index_set 0 = Inl e \<or> e = IndexError"
    if "init str_matrix standardize R (Some 0) None names index_set = Inl e" for e
  proof (cases "standardize (default_names names index_set) index_set 0")
    case (Inl e')
    with that r show ?thesis by (simp add: init_def)
  next
    case (Inr p)
    obtain nms' idx where p: "p = (nms', idx)" by (cases p)
    show ?thesis
    proof (cases idx)
      case Nil
      with that r Inr p show ?thesis by (simp add: init_def bosondict_def)
    next
      case (Cons i rest)
      with that r Inr p show ?thesis
        by (simp add: init_def bosondict_def getitem_def)
    qed
  qed
  have s: "\<exists>A. init str_matrix standardize R (Some 0) None names index_set = Inr A \<and>
               gram_matrix A = \<lparr>nrows = 0, ncols = 0, rows = []\<rparr> \<and>
               s_coeff (graded A) = Map.empty"
    if "standardize (default_names names index_set) index_set 0 = Inr (nms, [])"
    using that r
    by (simp add: init_def bosondict_def gram_matrix_def GradedLieConformalAlgebra_init_def)
  from r e s show ?thesis by blast
qed

text \<open>The statement at the integers with the default names.\<close>

theorem zero_generators_witness:
  "numbered_labels (default_names None (None :: unit option)) None 0
     = Inr (Some (NamesStr ''alpha''), []) \<and>
   resolve_gram_matrix str_dims integers (Some 0) None
     = Inr (0, \<lparr>nrows = 0, ncols = 0, rows = []\<rparr>) \<and>
   (\<exists>A. init str_dims numbered_labels integers (Some 0) None None None = Inr A \<and>
        gram_matrix A = \<lparr>nrows = 0, ncols = 0, rows = []\<rparr> \<and>
        s_coeff (graded A) = Map.empty)"
proof -
  have h: "numbered_labels (default_names None (None :: unit option)) None 0
             = Inr (Some (NamesStr ''alpha''), [])"
    by code_simp
  from h zero_generators
    [where standardize = numbered_labels and names = None and index_set = None
       and nms = "Some (NamesStr ''alpha'')" and str_matrix = str_dims and R = integers]
  show ?thesis by simp
qed

subsection \<open>C10: the central element is always K\<close>

text \<open>
  C10. For every successful construction, whatever names and index set the caller gives,
  the central elements passed to the parent constructor are exactly \<^verbatim>\<open>('K',)\<close>, and every
  value of the structure-constant table is a dictionary with the single bracket weight 1
  whose value is keyed by \<^verbatim>\<open>('K', 0)\<close> alone.
\<close>

theorem central_label_is_K:
  assumes "init str_matrix standardize R ngens gm names index_set = Inr A"
  shows "central_elements (graded A) = [''K''] \<and>
         (\<forall>k v. s_coeff (graded A) k = Some v \<longrightarrow> (\<exists>x. v = [1 \<mapsto> [(''K'', 0) \<mapsto> x]]))"
proof -
  from assms obtain n M nms idx d where
    A: "A = \<lparr>graded = GradedLieConformalAlgebra_init R d nms
                        (default_latex_names names index_set n) idx [''K''],
             priv_gram_matrix = M\<rparr>"
    by (rule init_Inr)
  then have c: "central_elements (graded A) = [''K'']"
    by (simp add: GradedLieConformalAlgebra_init_def)
  have v: "\<exists>x. v = [1 \<mapsto> [(''K'', 0) \<mapsto> x]]" if "s_coeff (graded A) k = Some v" for k v
  proof -
    obtain i j where k: "k = (i, j)" by (cases k)
    from bosondict_lookup [OF init_table [OF assms], of i j] that k
    show ?thesis by (auto split: if_splits)
  qed
  from c v show ?thesis by blast
qed

text \<open>
  The statement for three generators under the names \<^verbatim>\<open>'K,L,M'\<close>, the first of which
  coincides with the central label.
\<close>

theorem central_label_is_K_witness:
  "\<exists>A. init str_dims numbered_labels integers (Some 3) None
          (Some (NamesStr ''K,L,M'')) None = Inr A \<and>
       central_elements (graded A) = [''K''] \<and>
       (\<forall>k v. s_coeff (graded A) k = Some v \<longrightarrow> (\<exists>x. v = [1 \<mapsto> [(''K'', 0) \<mapsto> x]])) \<and>
       s_coeff (graded A) (2, 2) \<noteq> None"
proof -
  have "case init str_dims numbered_labels integers (Some 3) None
               (Some (NamesStr ''K,L,M'')) None of
          Inl e \<Rightarrow> False | Inr A \<Rightarrow> s_coeff (graded A) (2, 2) \<noteq> None"
    by code_simp
  then obtain A where
    A: "init str_dims numbered_labels integers (Some 3) None
          (Some (NamesStr ''K,L,M'')) None = Inr A" and
    e: "s_coeff (graded A) (2, 2) \<noteq> None"
    by (auto split: sum.splits)
  from A e central_label_is_K [OF A] show ?thesis by blast
qed

end
